theory Spec2Isabelle
  imports Main
begin

section \<open>Python values and errors\<close>

text \<open>
  The two functions of \<^verbatim>\<open>factorial.py\<close> are annotated \<^verbatim>\<open>n: int\<close>, but Python does not
  enforce annotations: any object can be passed, and the code checks the type itself with
  \<^verbatim>\<open>isinstance(n, int)\<close>. The argument is therefore a Python value. A float is kept as a
  mantissa and a binary exponent (\<open>PyFloat m e\<close> stands for \<open>m * 2 ^ e\<close>, so \<open>3.5\<close> is
  \<open>PyFloat 7 (- 1)\<close>); no arithmetic is ever done on it. Integers are unbounded, as
  Python's \<^verbatim>\<open>int\<close> is. \<open>PyOther t\<close> is an object of any other type \<open>t\<close> that is not a
  subclass of \<^verbatim>\<open>int\<close> (a list, a tuple, a \<^verbatim>\<open>Fraction\<close>, ...).
\<close>

datatype pyval =
    PyInt int
  | PyBool bool
  | PyFloat int int
  | PyStr string
  | PyNone
  | PyOther string

text \<open>The two exceptions the code raises, each with its message.\<close>

datatype error =
    TypeError string
  | ValueError string

text \<open>The three messages of the source, named so that they are written once.\<close>

definition not_an_integer :: string where
  "not_an_integer = ''Input must be an integer''"

definition not_positive :: string where
  "not_positive = ''Input must be a positive integer''"

definition negative_factorial :: string where
  "negative_factorial = ''Factorial is not defined for negative numbers''"

text \<open>
  \<^verbatim>\<open>bool\<close> is a subclass of \<^verbatim>\<open>int\<close> in Python, with \<^verbatim>\<open>True == 1\<close> and \<^verbatim>\<open>False == 0\<close>:
  \<open>int_value\<close> gives the integer an instance of \<^verbatim>\<open>int\<close> stands for in comparisons and
  arithmetic, and \<open>None\<close> for every object that is not an instance of \<^verbatim>\<open>int\<close>.
\<close>

fun int_value :: "pyval \<Rightarrow> int option" where
  "int_value (PyInt i) = Some i"
| "int_value (PyBool b) = Some (if b then 1 else 0)"
| "int_value (PyFloat m e) = None"
| "int_value (PyStr s) = None"
| "int_value PyNone = None"
| "int_value (PyOther t) = None"

definition isinstance_int :: "pyval \<Rightarrow> bool" where
  "isinstance_int v = (int_value v \<noteq> None)"

section \<open>The range generator\<close>

text \<open>
  \<^verbatim>\<open>list(range(start, stop))\<close>: the integers from \<open>start\<close> up to, but not including,
  \<open>stop\<close>, in ascending order; empty when \<open>stop \<le> start\<close>.
\<close>

function py_range :: "int \<Rightarrow> int \<Rightarrow> int list" where
  "py_range start stop = (if start < stop then start # py_range (start + 1) stop else [])"
  by pat_completeness auto
termination
  by (relation "measure (\<lambda>(start, stop). nat (stop - start))") auto

declare py_range.simps [simp del]

text \<open>
  \<^verbatim>\<open>
  def get_numbers_up_to(n: int) -> list[int]:
      if not isinstance(n, int):
          raise TypeError("Input must be an integer")
      if n < 1:
          raise ValueError("Input must be a positive integer")
      return list(range(1, n + 1))
  \<close>
\<close>

definition get_numbers_up_to :: "pyval \<Rightarrow> error + int list" where
  "get_numbers_up_to n =
     (case int_value n of
        None \<Rightarrow> Inl (TypeError not_an_integer)
      | Some i \<Rightarrow>
          if i < 1 then Inl (ValueError not_positive)
          else Inr (py_range 1 (i + 1)))"

section \<open>The factorial calculator\<close>

text \<open>
  The loop \<^verbatim>\<open>for num in numbers: result *= num\<close>, started with the current value of
  \<^verbatim>\<open>result\<close>.
\<close>

fun mult_loop :: "int list \<Rightarrow> int \<Rightarrow> int" where
  "mult_loop [] result = result"
| "mult_loop (num # numbers) result = mult_loop numbers (result * num)"

text \<open>
  \<^verbatim>\<open>
  def factorial(n: int) -> int:
      if not isinstance(n, int):
          raise TypeError("Input must be an integer")
      if n < 0:
          raise ValueError("Factorial is not defined for negative numbers")
      if n == 0 or n == 1:
          return 1
      numbers = get_numbers_up_to(n)
      result = 1
      for num in numbers:
          result *= num
      return result
  \<close>
  An exception raised by \<^verbatim>\<open>get_numbers_up_to\<close> is not caught, so it leaves \<^verbatim>\<open>factorial\<close>
  too.
\<close>

definition factorial :: "pyval \<Rightarrow> error + int" where
  "factorial n =
     (case int_value n of
        None \<Rightarrow> Inl (TypeError not_an_integer)
      | Some i \<Rightarrow>
          if i < 0 then Inl (ValueError negative_factorial)
          else if i = 0 \<or> i = 1 then Inr 1
          else (case get_numbers_up_to n of
                  Inl e \<Rightarrow> Inl e
                | Inr numbers \<Rightarrow> Inr (mult_loop numbers 1)))"

text \<open>
  The same function with a log of the calls it makes to \<^verbatim>\<open>get_numbers_up_to\<close>: the second
  component lists the arguments of those calls in the order they are made. The source has
  one call site, after the base case, so the log is empty on each path that returns or
  raises before it.
\<close>

definition factorial_traced :: "pyval \<Rightarrow> (error + int) \<times> pyval list" where
  "factorial_traced n =
     (case int_value n of
        None \<Rightarrow> (Inl (TypeError not_an_integer), [])
      | Some i \<Rightarrow>
          if i < 0 then (Inl (ValueError negative_factorial), [])
          else if i = 0 \<or> i = 1 then (Inr 1, [])
          else (case get_numbers_up_to n of
                  Inl e \<Rightarrow> (Inl e, [n])
                | Inr numbers \<Rightarrow> (Inr (mult_loop numbers 1), [n])))"

section \<open>Outcomes\<close>

text \<open>Which exception, if any, a call ended with.\<close>

fun raises_TypeError :: "error + 'a \<Rightarrow> bool" where
  "raises_TypeError (Inl (TypeError msg)) = True"
| "raises_TypeError (Inl (ValueError msg)) = False"
| "raises_TypeError (Inr x) = False"

fun raises_ValueError :: "error + 'a \<Rightarrow> bool" where
  "raises_ValueError (Inl (ValueError msg)) = True"
| "raises_ValueError (Inl (TypeError msg)) = False"
| "raises_ValueError (Inr x) = False"

section \<open>Facts about the range and the loop\<close>

text \<open>The range is HOL's interval list: \<^verbatim>\<open>list(range(i, j))\<close> is \<open>[i..j - 1]\<close>.\<close>

lemma py_range_upto: "py_range i j = [i..j - 1]"
proof (induction i j rule: py_range.induct)
  case (1 start stop)
  show ?case
  proof (cases "start < stop")
    case True
    with 1 show ?thesis
      by (subst py_range.simps) (simp add: upto_rec1)
  next
    case False
    then show ?thesis
      by (subst py_range.simps) simp
  qed
qed

text \<open>The loop multiplies the running result by each element, from the left.\<close>

lemma mult_loop_prod_list: "mult_loop xs r = r * prod_list xs"
  by (induction xs arbitrary: r) (simp_all add: mult.assoc)

lemma mult_loop_foldl: "mult_loop xs r = foldl (\<lambda>result num. result * num) r xs"
  by (induction xs arbitrary: r) simp_all

lemma prod_list_upto: "prod_list [1..n] = (\<Prod>k = 1..n. k)"
  using prod.distinct_set_conv_list [of "[1..n]" "\<lambda>k. k"] by simp

lemma prod_upto_rec:
  fixes n :: int
  assumes "1 \<le> n"
  shows "(\<Prod>k = 1..n. k) = n * (\<Prod>k = 1..n - 1. k)"
proof -
  from assms have "{1..n} = insert n {1..n - 1}"
    by auto
  then show ?thesis
    by simp
qed

lemma prod_upto_ge1: "1 \<le> (\<Prod>k = 1..n. k)" for n :: int
  by (rule prod_ge_1) simp

section \<open>What the two functions return\<close>

lemma get_numbers_up_to_value:
  "int_value v = Some i \<Longrightarrow> 1 \<le> i \<Longrightarrow> get_numbers_up_to v = Inr [1..i]"
  by (simp add: get_numbers_up_to_def py_range_upto)

lemma get_numbers_up_to_not_positive:
  "int_value v = Some i \<Longrightarrow> i < 1 \<Longrightarrow> get_numbers_up_to v = Inl (ValueError not_positive)"
  by (simp add: get_numbers_up_to_def)

lemma get_numbers_up_to_not_int:
  "int_value v = None \<Longrightarrow> get_numbers_up_to v = Inl (TypeError not_an_integer)"
  by (simp add: get_numbers_up_to_def)

lemma factorial_not_int:
  "int_value v = None \<Longrightarrow> factorial v = Inl (TypeError not_an_integer)"
  by (simp add: factorial_def)

lemma factorial_negative:
  "int_value v = Some i \<Longrightarrow> i < 0 \<Longrightarrow> factorial v = Inl (ValueError negative_factorial)"
  by (simp add: factorial_def)

lemma factorial_base:
  "int_value v = Some i \<Longrightarrow> i = 0 \<or> i = 1 \<Longrightarrow> factorial v = Inr 1"
  by (auto simp: factorial_def)

lemma factorial_loop:
  assumes "int_value v = Some i" and "2 \<le> i"
  shows "factorial v = Inr (mult_loop [1..i] 1)"
proof -
  from assms have "get_numbers_up_to v = Inr [1..i]"
    by (simp add: get_numbers_up_to_value)
  with assms show ?thesis
    by (simp add: factorial_def)
qed

lemma factorial_value:
  assumes v: "int_value v = Some i" and i: "0 \<le> i"
  shows "factorial v = Inr (\<Prod>k = 1..i. k)"
proof (cases "i = 0 \<or> i = 1")
  case True
  then have "(\<Prod>k = 1..i. k) = 1"
    by auto
  with True v show ?thesis
    by (simp add: factorial_base)
next
  case False
  with i have "2 \<le> i"
    by arith
  with v show ?thesis
    by (simp add: factorial_loop mult_loop_prod_list prod_list_upto)
qed

lemma factorial_traced_result: "fst (factorial_traced v) = factorial v"
  by (simp add: factorial_traced_def factorial_def split: option.split sum.split)

section \<open>The claims\<close>

text \<open>
  C1. For every integer \<open>n \<ge> 0\<close>, \<^verbatim>\<open>factorial(n)\<close> returns the exact integer that is the
  product of all integers from 1 to \<open>n\<close>; \<^verbatim>\<open>factorial(0)\<close> and \<^verbatim>\<open>factorial(1)\<close> are 1,
  \<^verbatim>\<open>factorial(5)\<close> is 120 and \<^verbatim>\<open>factorial(10)\<close> is 3628800. The result type \<open>int\<close> is
  unbounded, so nothing wraps or rounds.
\<close>

theorem factorial_is_product:
  "(0 \<le> n \<longrightarrow> factorial (PyInt n) = Inr (\<Prod>k = 1..n. k)) \<and>
   factorial (PyInt 0) = Inr 1 \<and>
   factorial (PyInt 1) = Inr 1 \<and>
   factorial (PyInt 5) = Inr 120 \<and>
   factorial (PyInt 10) = Inr 3628800"
proof -
  have "0 \<le> n \<longrightarrow> factorial (PyInt n) = Inr (\<Prod>k = 1..n. k)"
    by (simp add: factorial_value)
  moreover have "factorial (PyInt 0) = Inr 1" and "factorial (PyInt 1) = Inr 1"
    by (simp_all add: factorial_base)
  moreover have "factorial (PyInt 5) = Inr 120"
    by code_simp
  moreover have "factorial (PyInt 10) = Inr 3628800"
    by code_simp
  ultimately show ?thesis
    by blast
qed

theorem factorial_is_product_witness:
  "(0::int) \<le> 4 \<and> factorial (PyInt 4) = Inr (\<Prod>k = 1..4. k) \<and> (\<Prod>k = 1..4. k) = (24::int)"
proof -
  have "(\<Prod>k = 1..4. k) = (24::int)"
    by code_simp
  with factorial_is_product [of 4] show ?thesis
    by simp
qed

text \<open>
  C2. For every integer \<open>n \<ge> 1\<close>, \<^verbatim>\<open>get_numbers_up_to(n)\<close> returns a list of exactly \<open>n\<close>
  elements whose element at index \<open>i\<close> is \<open>i + 1\<close>, that is the list \<open>[1, 2, ..., n]\<close>;
  for 5 it is \<open>[1, 2, 3, 4, 5]\<close>.
\<close>

theorem get_numbers_up_to_is_range:
  "(1 \<le> n \<longrightarrow>
      (\<exists>xs. get_numbers_up_to (PyInt n) = Inr xs \<and>
            length xs = nat n \<and>
            (\<forall>i < length xs. xs ! i = int i + 1) \<and>
            xs = [1..n])) \<and>
   get_numbers_up_to (PyInt 5) = Inr [1, 2, 3, 4, 5]"
proof -
  have "get_numbers_up_to (PyInt 5) = Inr [1, 2, 3, 4, 5]"
    by code_simp
  moreover have "length [1..n] = nat n"
    by simp
  moreover have "\<forall>i < length [1..n]. [1..n] ! i = int i + 1"
    by simp
  ultimately show ?thesis
    by (simp add: get_numbers_up_to_value)
qed

theorem get_numbers_up_to_is_range_witness:
  "(1::int) \<le> 3 \<and> get_numbers_up_to (PyInt 3) = Inr [1, 2, 3] \<and>
   length [1, 2, 3::int] = nat 3 \<and> [1, 2, 3::int] ! 2 = int 2 + 1"
proof -
  have "[1..3] = [1, 2, 3::int]"
    by code_simp
  with get_numbers_up_to_is_range [of 3] show ?thesis
    by simp
qed

text \<open>
  C3. For every instance of \<^verbatim>\<open>int\<close> with value \<open>i\<close>, the range generator raises
  \<^verbatim>\<open>ValueError\<close> exactly when \<open>i < 1\<close> and the factorial calculator exactly when \<open>i < 0\<close>;
  the outcome is then the exception alone, with no list or number beside it. In particular
  \<^verbatim>\<open>get_numbers_up_to(0)\<close>, \<^verbatim>\<open>get_numbers_up_to(-1)\<close> and \<^verbatim>\<open>factorial(-1)\<close> raise it.
\<close>

theorem value_error_iff_out_of_domain:
  "(int_value v = Some i \<longrightarrow>
      (raises_ValueError (get_numbers_up_to v) \<longleftrightarrow> i < 1) \<and>
      (raises_ValueError (factorial v) \<longleftrightarrow> i < 0) \<and>
      (i < 1 \<longrightarrow> get_numbers_up_to v = Inl (ValueError not_positive)) \<and>
      (i < 0 \<longrightarrow> factorial v = Inl (ValueError negative_factorial))) \<and>
   raises_ValueError (get_numbers_up_to (PyInt 0)) \<and>
   raises_ValueError (get_numbers_up_to (PyInt (- 1))) \<and>
   raises_ValueError (factorial (PyInt (- 1)))"
proof -
  have "raises_ValueError (get_numbers_up_to v) \<longleftrightarrow> i < 1" if "int_value v = Some i"
    using that
    by (cases "i < 1") (simp_all add: get_numbers_up_to_not_positive get_numbers_up_to_value)
  moreover have "raises_ValueError (factorial v) \<longleftrightarrow> i < 0" if "int_value v = Some i"
    using that by (cases "i < 0") (simp_all add: factorial_negative factorial_value)
  moreover have "raises_ValueError (get_numbers_up_to (PyInt 0))"
    and "raises_ValueError (get_numbers_up_to (PyInt (- 1)))"
    by (simp_all add: get_numbers_up_to_not_positive)
  moreover have "raises_ValueError (factorial (PyInt (- 1)))"
    by (simp add: factorial_negative)
  ultimately show ?thesis
    by (simp add: get_numbers_up_to_not_positive factorial_negative)
qed

theorem value_error_iff_out_of_domain_witness:
  "int_value (PyInt 0) = Some 0 \<and>
   raises_ValueError (get_numbers_up_to (PyInt 0)) \<and>
   \<not> raises_ValueError (factorial (PyInt 0)) \<and>
   get_numbers_up_to (PyInt 0) = Inl (ValueError not_positive) \<and>
   int_value (PyInt (- 2)) = Some (- 2) \<and>
   factorial (PyInt (- 2)) = Inl (ValueError negative_factorial)"
  using value_error_iff_out_of_domain [of "PyInt 0" 0]
    value_error_iff_out_of_domain [of "PyInt (- 2)" "- 2"]
  by simp

text \<open>
  C4. For every value that is not an instance of \<^verbatim>\<open>int\<close>, such as the float 3.5 or the
  string \<^verbatim>\<open>"5"\<close>, both functions raise \<^verbatim>\<open>TypeError\<close>, and \<^verbatim>\<open>factorial\<close> does so without
  having called the range generator.
\<close>

theorem type_error_for_non_integers:
  "(\<not> isinstance_int v \<longrightarrow>
      get_numbers_up_to v = Inl (TypeError not_an_integer) \<and>
      factorial v = Inl (TypeError not_an_integer) \<and>
      factorial_traced v = (Inl (TypeError not_an_integer), [])) \<and>
   raises_TypeError (get_numbers_up_to (PyFloat 7 (- 1))) \<and>
   raises_TypeError (factorial (PyFloat 7 (- 1))) \<and>
   raises_TypeError (get_numbers_up_to (PyStr ''5'')) \<and>
   raises_TypeError (factorial (PyStr ''5''))"
  by (simp add: isinstance_int_def get_numbers_up_to_not_int factorial_not_int
      factorial_traced_def)

theorem type_error_for_non_integers_witness:
  "\<not> isinstance_int (PyStr ''5'') \<and>
   get_numbers_up_to (PyStr ''5'') = Inl (TypeError not_an_integer) \<and>
   factorial (PyStr ''5'') = Inl (TypeError not_an_integer) \<and>
   factorial_traced (PyStr ''5'') = (Inl (TypeError not_an_integer), [])"
  using type_error_for_non_integers [of "PyStr ''5''"]
  by (simp add: isinstance_int_def)

text \<open>
  C5. For every integer \<open>n \<ge> 2\<close>, \<^verbatim>\<open>factorial(n) == n * factorial(n - 1)\<close>, and
  \<^verbatim>\<open>factorial(0) == factorial(1) == 1\<close>.
\<close>

theorem factorial_recurrence:
  "(2 \<le> n \<longrightarrow>
      (\<exists>r. factorial (PyInt (n - 1)) = Inr r \<and> factorial (PyInt n) = Inr (n * r))) \<and>
   factorial (PyInt 0) = Inr 1 \<and>
   factorial (PyInt 1) = Inr 1"
proof -
  have "factorial (PyInt n) = Inr (n * (\<Prod>k = 1..n - 1. k))" if "2 \<le> n"
    using that by (simp add: factorial_value prod_upto_rec)
  moreover have "factorial (PyInt (n - 1)) = Inr (\<Prod>k = 1..n - 1. k)" if "2 \<le> n"
    using that by (simp add: factorial_value)
  moreover have "factorial (PyInt 0) = Inr 1" and "factorial (PyInt 1) = Inr 1"
    by (simp_all add: factorial_base)
  ultimately show ?thesis
    by simp
qed

theorem factorial_recurrence_witness:
  "(2::int) \<le> 5 \<and> factorial (PyInt 4) = Inr 24 \<and> factorial (PyInt 5) = Inr (5 * 24)"
proof -
  have "factorial (PyInt 4) = Inr 24"
    by code_simp
  with factorial_recurrence [of 5] show ?thesis
    by simp
qed

text \<open>
  C6. For \<open>n\<close> equal to 0 or 1, \<^verbatim>\<open>factorial\<close> returns 1 without calling the range generator.
  For every \<open>n \<ge> 2\<close> it calls the range generator once, with \<open>n\<close>, gets \<open>[1..n]\<close> and
  returns the left fold of that list with multiplication, started at 1. No call that
  \<^verbatim>\<open>factorial\<close> makes to the range generator, whatever its own argument, ends in
  \<^verbatim>\<open>ValueError\<close>. The traced function returns what \<^verbatim>\<open>factorial\<close> returns.
\<close>

theorem factorial_calls_range_generator:
  "(n = 0 \<or> n = 1 \<longrightarrow> factorial_traced (PyInt n) = (Inr 1, [])) \<and>
   (2 \<le> n \<longrightarrow>
      get_numbers_up_to (PyInt n) = Inr [1..n] \<and>
      factorial_traced (PyInt n) =
        (Inr (foldl (\<lambda>result num. result * num) 1 [1..n]), [PyInt n])) \<and>
   fst (factorial_traced v) = factorial v \<and>
   (\<forall>a \<in> set (snd (factorial_traced v)). \<not> raises_ValueError (get_numbers_up_to a))"
proof -
  have "factorial_traced (PyInt n) = (Inr 1, [])" if "n = 0 \<or> n = 1"
    using that by (auto simp: factorial_traced_def)
  moreover have "get_numbers_up_to (PyInt n) = Inr [1..n]" if "2 \<le> n"
    using that by (simp add: get_numbers_up_to_value)
  moreover have "factorial_traced (PyInt n) =
      (Inr (foldl (\<lambda>result num. result * num) 1 [1..n]), [PyInt n])" if "2 \<le> n"
    using that by (simp add: factorial_traced_def get_numbers_up_to_value mult_loop_foldl)
  moreover have "\<not> raises_ValueError (get_numbers_up_to a)"
    if "a \<in> set (snd (factorial_traced v))" for a
  proof (cases "int_value v")
    case None
    with that show ?thesis
      by (simp add: factorial_traced_def)
  next
    case (Some i)
    with that have "a = v" and "1 \<le> i"
      by (auto simp: factorial_traced_def split: if_splits sum.splits)
    with Some show ?thesis
      by (simp add: get_numbers_up_to_value)
  qed
  ultimately show ?thesis
    by (simp add: factorial_traced_result)
qed

theorem factorial_calls_range_generator_witness:
  "factorial_traced (PyInt 0) = (Inr 1, []) \<and>
   (2::int) \<le> 3 \<and>
   get_numbers_up_to (PyInt 3) = Inr [1, 2, 3] \<and>
   factorial_traced (PyInt 3) = (Inr 6, [PyInt 3]) \<and>
   PyInt 3 \<in> set (snd (factorial_traced (PyInt 3))) \<and>
   \<not> raises_ValueError (get_numbers_up_to (PyInt 3))"
proof -
  have "[1..3] = [1, 2, 3::int]"
    by code_simp
  with factorial_calls_range_generator [of 0 "PyInt 3"]
    factorial_calls_range_generator [of 3 "PyInt 3"]
  show ?thesis
    by simp
qed

text \<open>
  C7. Factorial is monotonically non-decreasing: for every integer \<open>n \<ge> 0\<close>, both
  \<^verbatim>\<open>factorial(n)\<close> and \<^verbatim>\<open>factorial(n + 1)\<close> return, and the second value is at least the
  first.
\<close>

theorem factorial_monotone:
  assumes "0 \<le> n"
  shows "\<exists>a b. factorial (PyInt n) = Inr a \<and> factorial (PyInt (n + 1)) = Inr b \<and> a \<le> b"
proof -
  let ?a = "\<Prod>k = 1..n. k"
  from assms have a: "factorial (PyInt n) = Inr ?a"
    by (simp add: factorial_value)
  from assms have b: "factorial (PyInt (n + 1)) = Inr ((n + 1) * ?a)"
    using prod_upto_rec [of "n + 1"] by (simp add: factorial_value)
  have "0 \<le> ?a"
    using prod_upto_ge1 [of n] by arith
  with assms have "1 * ?a \<le> (n + 1) * ?a"
    by (intro mult_right_mono) simp_all
  with a b show ?thesis
    by simp
qed

theorem factorial_monotone_witness:
  "(0::int) \<le> 3 \<and> factorial (PyInt 3) = Inr 6 \<and> factorial (PyInt 4) = Inr 24 \<and> (6::int) \<le> 24"
proof -
  have "factorial (PyInt 3) = Inr 6" and "factorial (PyInt 4) = Inr 24"
    by code_simp+
  with factorial_monotone [of 3] show ?thesis
    by simp
qed

text \<open>
  C8. For every integer \<open>n \<ge> 0\<close>, \<^verbatim>\<open>factorial(n)\<close> returns a value that is at least 1.
\<close>

theorem factorial_at_least_one:
  assumes "0 \<le> n"
  shows "\<exists>r. factorial (PyInt n) = Inr r \<and> 1 \<le> r"
  using assms by (simp add: factorial_value prod_upto_ge1)

theorem factorial_at_least_one_witness:
  "(0::int) \<le> 6 \<and> factorial (PyInt 6) = Inr 720 \<and> (1::int) \<le> 720"
proof -
  have "factorial (PyInt 6) = Inr 720"
    by code_simp
  with factorial_at_least_one [of 6] show ?thesis
    by simp
qed

text \<open>
  C9. A boolean is an instance of \<^verbatim>\<open>int\<close>, so neither function raises \<^verbatim>\<open>TypeError\<close> for it:
  \<^verbatim>\<open>factorial(True)\<close> and \<^verbatim>\<open>factorial(False)\<close> return 1, and \<^verbatim>\<open>get_numbers_up_to(True)\<close>
  returns \<open>[1]\<close>.
\<close>

theorem booleans_pass_the_type_check:
  "isinstance_int (PyBool b) \<and>
   \<not> raises_TypeError (factorial (PyBool b)) \<and>
   \<not> raises_TypeError (get_numbers_up_to (PyBool b)) \<and>
   factorial (PyBool True) = Inr 1 \<and>
   factorial (PyBool False) = Inr 1 \<and>
   get_numbers_up_to (PyBool True) = Inr [1]"
proof -
  have "[1..1] = [1::int]"
    by code_simp
  then have "get_numbers_up_to (PyBool True) = Inr [1]"
    by (simp add: get_numbers_up_to_value)
  moreover have "get_numbers_up_to (PyBool False) = Inl (ValueError not_positive)"
    by (simp add: get_numbers_up_to_not_positive)
  moreover have "factorial (PyBool c) = Inr 1" for c
    by (simp add: factorial_base)
  ultimately show ?thesis
    by (cases b) (simp_all add: isinstance_int_def)
qed

end

